theory Spec2Isabelle
  imports Main
begin

section \<open>Python values used by the scheduler\<close>

text \<open>
  The exceptions the program can end with. \<open>SystemExit\<close> carries the operator-facing
  message of \<^verbatim>\<open>raise SystemExit(...)\<close>; \<open>AssertionError\<close> is a failed \<^verbatim>\<open>assert\<close>;
  the others are raised by the Python runtime (a missing dictionary key, \<^verbatim>\<open>str.index\<close>
  or \<^verbatim>\<open>int\<close> or \<^verbatim>\<open>min\<close> on a bad argument, \<^verbatim>\<open>None < int\<close>).
\<close>

datatype error =
    SystemExit string
  | AssertionError
  | KeyError
  | ValueError
  | TypeError

definition err_bind :: "error + 'a \<Rightarrow> ('a \<Rightarrow> error + 'b) \<Rightarrow> error + 'b" where
  "err_bind m f = (case m of Inl e \<Rightarrow> Inl e | Inr x \<Rightarrow> f x)"

text \<open>\<^verbatim>\<open>s.index(c)\<close>: the position of the first \<open>c\<close>, ValueError when there is none.\<close>

definition str_index :: "string \<Rightarrow> char \<Rightarrow> error + nat" where
  "str_index s c =
     (if c \<in> set s then Inr (length (takeWhile (\<lambda>x. x \<noteq> c) s)) else Inl ValueError)"

definition is_digit :: "char \<Rightarrow> bool" where
  "is_digit c = (c \<in> set ''0123456789'')"

definition digit_value :: "char \<Rightarrow> nat" where
  "digit_value c = length (takeWhile (\<lambda>x. x \<noteq> c) ''0123456789'')"

definition digits_value :: "string \<Rightarrow> nat" where
  "digits_value ds = foldl (\<lambda>n c. 10 * n + digit_value c) 0 ds"

text \<open>
  \<^verbatim>\<open>int(s)\<close> on a decimal literal with an optional sign; anything else is a ValueError.
  (Python's \<^verbatim>\<open>int\<close> also accepts surrounding whitespace and underscores between digits;
  the time format \<^verbatim>\<open>H:MM\<close> has neither, and the model reports them as ValueError.)
\<close>

definition py_int :: "string \<Rightarrow> error + int" where
  "py_int s =
     (case s of
        [] \<Rightarrow> Inl ValueError
      | c # ds \<Rightarrow>
          if c = CHR ''-'' \<or> c = CHR ''+'' then
            (if ds \<noteq> [] \<and> list_all is_digit ds
             then Inr ((if c = CHR ''-'' then - 1 else 1) * int (digits_value ds))
             else Inl ValueError)
          else if list_all is_digit s then Inr (int (digits_value s))
          else Inl ValueError)"

definition digit_char :: "nat \<Rightarrow> char" where
  "digit_char d = ''0123456789'' ! d"

fun nat_digits :: "nat \<Rightarrow> string" where
  "nat_digits n =
     (if n < 10 then [digit_char n] else nat_digits (n div 10) @ [digit_char (n mod 10)])"

declare nat_digits.simps [simp del]

text \<open>\<^verbatim>\<open>f'{i}'\<close> and \<^verbatim>\<open>f'{i:02}'\<close> (sign first, then zeros up to width 2).\<close>

definition py_str :: "int \<Rightarrow> string" where
  "py_str i = (if i < 0 then CHR ''-'' # nat_digits (nat (- i)) else nat_digits (nat i))"

definition py_fmt_02 :: "int \<Rightarrow> string" where
  "py_fmt_02 i =
     (let sign = (if i < 0 then ''-'' else ''''); ds = nat_digits (nat \<bar>i\<bar>)
      in sign @ replicate (2 - (length sign + length ds)) (CHR ''0'') @ ds)"

section \<open>Store: the time grid\<close>

definition TIME_OPEN :: int where "TIME_OPEN = 10"
definition TIME_CLOSE :: int where "TIME_CLOSE = 20"
definition HOURS_OPEN :: int where "HOURS_OPEN = TIME_CLOSE - TIME_OPEN"
definition MINUTES_PER_SLOT :: int where "MINUTES_PER_SLOT = 15"
definition SLOTS_PER_HOUR :: int where "SLOTS_PER_HOUR = 60 div MINUTES_PER_SLOT"
definition NUM_SLOTS :: int where "NUM_SLOTS = HOURS_OPEN * SLOTS_PER_HOUR"

definition time_to_slot :: "string \<Rightarrow> error + int" where
  "time_to_slot t =
     err_bind (str_index t (CHR '':'')) (\<lambda>split.
     err_bind (py_int (take split t)) (\<lambda>hour0.
       let hour = (if hour0 < 10 then hour0 + 12 else hour0) in
       err_bind (py_int (drop (split + 1) t)) (\<lambda>minute.
         Inr ((hour - TIME_OPEN) * SLOTS_PER_HOUR + minute div MINUTES_PER_SLOT))))"

definition slot_to_time :: "int \<Rightarrow> string" where
  "slot_to_time slot =
     (let hour0 = TIME_OPEN + slot div SLOTS_PER_HOUR;
          hour = (if hour0 > 12 then hour0 - 12 else hour0);
          seconds = (slot mod SLOTS_PER_HOUR) * MINUTES_PER_SLOT
      in py_str hour @ '':'' @ py_fmt_02 seconds)"

text \<open>
  The source documents the argument of \<open>time_to_slot\<close> as
  \<^verbatim>\<open>@t: H:MM or HH:MM in [10AM, 8PM]\<close>: one or two hour digits, a colon, two minute
  digits below 60, and, with hours below 10 read as PM, a time from 10:00 to 20:00.
\<close>

definition valid_time :: "string \<Rightarrow> bool" where
  "valid_time t =
     (let hs = takeWhile (\<lambda>x. x \<noteq> CHR '':'') t; ms = drop (length hs + 1) t;
          h0 = digits_value hs; h = (if h0 < 10 then h0 + 12 else h0); m = digits_value ms
      in t = hs @ '':'' @ ms \<and> length hs \<in> {1, 2} \<and> length ms = 2
         \<and> list_all is_digit hs \<and> list_all is_digit ms \<and> m < 60
         \<and> 10 \<le> h \<and> (h < 20 \<or> (h = 20 \<and> m = 0)))"

section \<open>Shift\<close>

text \<open>
  A Python \<^verbatim>\<open>range(start, stop)\<close> with step 1: \<open>x in r\<close> is \<open>start r \<le> x < stop r\<close>,
  and iterating it visits \<open>start r, ..., stop r - 1\<close> (nothing when \<open>stop r \<le> start r\<close>).
  \<open>range_step a b k\<close> lists \<^verbatim>\<open>range(a, b, k)\<close> for a positive step.
\<close>

record py_range =
  start :: int
  stop :: int

definition in_range :: "int \<Rightarrow> py_range \<Rightarrow> bool" where
  "in_range x r = (start r \<le> x \<and> x < stop r)"

definition range_list :: "py_range \<Rightarrow> int list" where
  "range_list r = [start r..stop r - 1]"

definition range_step :: "int \<Rightarrow> int \<Rightarrow> int \<Rightarrow> int list" where
  "range_step a b k = map (\<lambda>i. a + k * i) [0..(b - a + k - 1) div k - 1]"

record Shift =
  config :: string
  is_fulltime :: bool
  time_range :: py_range

definition templates :: "string list" where
  "templates = [''E'', ''M'', ''L'']"

text \<open>\<^verbatim>\<open>d[key]\<close> on a dictionary literal, written as an association list.\<close>

definition dict_get :: "('k \<times> 'v) list \<Rightarrow> 'k \<Rightarrow> error + 'v" where
  "dict_get d k = (case map_of d k of None \<Rightarrow> Inl KeyError | Some v \<Rightarrow> Inr v)"

definition template_times :: "((string \<times> bool) \<times> (string \<times> string)) list" where
  "template_times =
     [((''E'', True),  (''10:00'', ''6:30'')),
      ((''E'', False), (''10:00'', ''5:45'')),
      ((''M'', False), (''11:00'', ''7:00'')),
      ((''L'', True),  (''11:15'', ''8:00'')),
      ((''L'', False), (''12:00'', ''8:00''))]"

definition Shift_init :: "string \<Rightarrow> bool \<Rightarrow> error + Shift" where
  "Shift_init cfg fulltime =
     err_bind
       (if cfg \<in> set templates then dict_get template_times (cfg, fulltime)
        else err_bind (str_index cfg (CHR ''-'')) (\<lambda>i. Inr (take i cfg, drop (i + 1) cfg)))
       (\<lambda>(t_start, t_stop).
          err_bind (time_to_slot t_start) (\<lambda>a.
          err_bind (time_to_slot t_stop) (\<lambda>b.
            Inr \<lparr>config = cfg, is_fulltime = fulltime, time_range = \<lparr>start = a, stop = b\<rparr>\<rparr>)))"

text \<open>\<^verbatim>\<open>__eq__\<close>: two shifts are equal when their ranges are equal as Python ranges
  (two empty ranges are equal whatever their bounds).\<close>

definition Shift_eq :: "Shift \<Rightarrow> Shift \<Rightarrow> bool" where
  "Shift_eq s other = (range_list (time_range s) = range_list (time_range other))"

definition lunch_slots :: "error + int list" where
  "lunch_slots =
     err_bind (time_to_slot ''12:00'') (\<lambda>a.
     err_bind (time_to_slot ''4:00'') (\<lambda>b. Inr (range_step a b 4)))"

definition similar :: "Shift \<Rightarrow> error + Shift" where
  "similar s =
     err_bind (time_to_slot ''11:00'') (\<lambda>t11.
       if start (time_range s) < t11 then Shift_init ''E'' (is_fulltime s)
       else err_bind (time_to_slot ''12:00'') (\<lambda>t12.
         if stop (time_range s) < t12 then Shift_init ''M'' (is_fulltime s)
         else Shift_init ''L'' (is_fulltime s)))"

definition lunch_priority_table :: "((string \<times> bool) \<times> int) list" where
  "lunch_priority_table =
     [((''E'', True),  2),
      ((''E'', False), 2),
      ((''M'', False), 1),
      ((''L'', True),  0),
      ((''L'', False), 0)]"

text \<open>
  \<open>lunch_priority\<close> and \<open>lunch_slots_strict\<close> call themselves on \<open>similar()\<close> when the
  label is no template; \<open>similar()\<close> returns a template shift, so that call takes the
  table branch, which is written out here.
\<close>

definition lunch_priority :: "Shift \<Rightarrow> error + int" where
  "lunch_priority s =
     (if config s \<notin> set templates then
        err_bind (similar s) (\<lambda>s'. dict_get lunch_priority_table (config s', is_fulltime s'))
      else dict_get lunch_priority_table (config s, is_fulltime s))"

definition lunch_slots_strict_table :: "((string \<times> bool) \<times> (string \<times> string)) list" where
  "lunch_slots_strict_table =
     [((''E'', True),  (''12:00'', ''2:00'')),
      ((''E'', False), (''12:00'', ''2:00'')),
      ((''M'', False), (''1:00'', ''3:00'')),
      ((''L'', True),  (''2:00'', ''4:00'')),
      ((''L'', False), (''2:00'', ''4:00''))]"

definition lunch_slots_strict_template :: "Shift \<Rightarrow> error + int list" where
  "lunch_slots_strict_template s =
     err_bind (dict_get lunch_slots_strict_table (config s, is_fulltime s)) (\<lambda>(t_start, t_stop).
     err_bind (time_to_slot t_start) (\<lambda>a.
     err_bind (time_to_slot t_stop) (\<lambda>b. Inr (range_step a b 4))))"

definition lunch_slots_strict :: "Shift \<Rightarrow> error + int list" where
  "lunch_slots_strict s =
     (if config s \<notin> set templates then err_bind (similar s) lunch_slots_strict_template
      else lunch_slots_strict_template s)"

section \<open>Appointment, Employee, Config\<close>

datatype Appointment = NOT_HERE | REGULAR | LUNCH | BREAK | CASHIER | SUPPORT | MEETING

text \<open>\<^verbatim>\<open>range(Appointment.COUNT)\<close>, in the order of the numbers 0 to 6.\<close>

definition all_appointments :: "Appointment list" where
  "all_appointments = [NOT_HERE, REGULAR, LUNCH, BREAK, CASHIER, SUPPORT, MEETING]"

record Employee =
  shift :: Shift
  name :: string
  dept :: string

text \<open>An entry of \<open>register_count\<close>: the dictionary \<^verbatim>\<open>{'count': c, 'start': s}\<close>.\<close>

record epoch =
  epoch_count :: int
  epoch_start :: int

text \<open>
  \<open>meetings\<close> is a dictionary from names to lists of ranges; it is iterated in insertion
  order, so it is kept as an association list (built with distinct keys).
\<close>

record Config =
  employees :: "Employee list"
  meetings :: "(string \<times> py_range list) list"
  register_count :: "epoch list"

text \<open>
  \<open>Config.__init__\<close> reads today's entries of the user's \<^verbatim>\<open>config.py\<close>; the model takes
  them as arguments: \<open>info\<close> is \<^verbatim>\<open>EMPLOYEE_INFO\<close>, \<open>schedule\<close>, \<open>meetings_today\<close>
  and \<open>register_today\<close> are \<^verbatim>\<open>SCHEDULE[day]\<close>, \<^verbatim>\<open>MEETINGS[day]\<close> and
  \<^verbatim>\<open>REGISTER_COUNT[day]\<close>.
\<close>

fun err_map :: "('a \<Rightarrow> error + 'b) \<Rightarrow> 'a list \<Rightarrow> error + 'b list" where
  "err_map f [] = Inr []"
| "err_map f (x # xs) = err_bind (f x) (\<lambda>y. err_bind (err_map f xs) (\<lambda>ys. Inr (y # ys)))"

definition make_employee ::
  "(string \<times> bool \<times> string) list \<Rightarrow> string \<times> string \<Rightarrow> error + Employee" where
  "make_employee info = (\<lambda>(shift_config, e_name).
     err_bind (dict_get info e_name) (\<lambda>(fulltime, department).
     err_bind (Shift_init shift_config fulltime) (\<lambda>sh.
       Inr \<lparr>shift = sh, name = e_name, dept = department\<rparr>)))"

definition make_meeting :: "string \<times> string \<Rightarrow> error + py_range" where
  "make_meeting = (\<lambda>(m_start, m_stop).
     err_bind (time_to_slot m_start) (\<lambda>a.
     err_bind (time_to_slot m_stop) (\<lambda>b. Inr \<lparr>start = a, stop = b\<rparr>)))"

definition make_epoch :: "int \<times> string \<Rightarrow> error + epoch" where
  "make_epoch = (\<lambda>(c, t).
     err_bind (time_to_slot t) (\<lambda>s. Inr \<lparr>epoch_count = c, epoch_start = s\<rparr>))"

definition Config_init ::
  "(string \<times> bool \<times> string) list \<Rightarrow> (string \<times> string) list \<Rightarrow>
   (string \<times> (string \<times> string) list) list \<Rightarrow> (int \<times> string) list \<Rightarrow> error + Config" where
  "Config_init info schedule meetings_today register_today =
     err_bind (err_map (make_employee info) schedule) (\<lambda>emps.
     err_bind (err_map (\<lambda>(nm, ms). err_bind (err_map make_meeting ms) (\<lambda>rs. Inr (nm, rs)))
                 meetings_today) (\<lambda>mts.
     err_bind (err_map make_epoch register_today) (\<lambda>rc.
       Inr \<lparr>employees = emps, meetings = mts, register_count = rc\<rparr>)))"

text \<open>\<^verbatim>\<open>enumerate(self.employees)\<close> and the three filters of \<open>employee_ids\<close>.\<close>

definition enumerate_employees :: "Config \<Rightarrow> (nat \<times> Employee) list" where
  "enumerate_employees cfg = zip [0..<length (employees cfg)] (employees cfg)"

definition employee_ids :: "Config \<Rightarrow> string \<Rightarrow> bool \<Rightarrow> nat list" where
  "employee_ids cfg filt_type opposite =
     (if filt_type = ''ALL'' then [0..<length (employees cfg)]
      else if filt_type = ''FULLTIME'' then
        map fst (filter (\<lambda>(eid, emp). opposite \<noteq> is_fulltime (shift emp)) (enumerate_employees cfg))
      else
        map fst (filter (\<lambda>(eid, emp). opposite \<noteq> (dept emp = filt_type)) (enumerate_employees cfg)))"

definition employee_name_to_id :: "Config \<Rightarrow> string \<Rightarrow> error + nat" where
  "employee_name_to_id cfg nm =
     (let ret = map fst (filter (\<lambda>(eid, emp). name emp = nm) (enumerate_employees cfg)) in
      if length ret = 0 then Inl AssertionError
      else if length ret = 1 then Inr (ret ! 0)
      else Inl (SystemExit (''Name \"'' @ nm @ ''\" is not unique'')))"

definition number_of_designated_cashiers_here :: "Config \<Rightarrow> int \<Rightarrow> int" where
  "number_of_designated_cashiers_here cfg slot =
     int (length (filter (\<lambda>sh. in_range slot (time_range sh))
       (map (\<lambda>eid. shift (employees cfg ! eid)) (employee_ids cfg ''CASHIER'' False))))"

section \<open>The constraint model handed to the solver\<close>

text \<open>
  The solver's Boolean variables, named by the place that creates them:
  \<open>Sched eid slot appt\<close> is \<^verbatim>\<open>self.sched[(eid, slot, appt)]\<close>, \<open>Enable name\<close> the
  toggle \<^verbatim>\<open>enable_{name}\<close> of a soft constraint, \<open>NonCashierCashiers slot\<close> and
  \<open>ToTheRight eid slot\<close> the auxiliary variables of the hard constraints. Each is
  created once per index, so distinct creations have distinct names.
\<close>

datatype var =
    Sched nat int Appointment
  | Enable string
  | NonCashierCashiers int
  | ToTheRight nat int

datatype lit = Pos var | Neg var

text \<open>
  Linear expressions as the source builds them: a variable (0 or 1), a constant,
  \<^verbatim>\<open>sum(...)\<close>, \<^verbatim>\<open>weight * expr\<close> and a negated literal \<^verbatim>\<open>var.Not()\<close> (1 minus the variable).
\<close>

datatype expr = V var | K int | Sum "expr list" | Times int expr | NotV var

datatype cmp = EQ | LE

datatype ct =
    Linear expr cmp expr
  | BoolOr "lit list"
  | AtLeastOne "lit list"
  | ExactlyOne "lit list"
  | Implication lit lit

text \<open>A constraint and its enforcement literals (\<^verbatim>\<open>OnlyEnforceIf\<close>).\<close>

record constraint =
  body :: ct
  enforce :: "lit list"

definition Add :: "ct \<Rightarrow> constraint" where
  "Add c = \<lparr>body = c, enforce = []\<rparr>"

definition OnlyEnforceIf :: "constraint \<Rightarrow> lit \<Rightarrow> constraint" where
  "OnlyEnforceIf c l = c\<lparr>enforce := enforce c @ [l]\<rparr>"

type_synonym assignment = "var \<Rightarrow> bool"

fun eval_expr :: "assignment \<Rightarrow> expr \<Rightarrow> int" where
  "eval_expr a (V v) = (if a v then 1 else 0)"
| "eval_expr a (K k) = k"
| "eval_expr a (Sum es) = sum_list (map (eval_expr a) es)"
| "eval_expr a (Times k e) = k * eval_expr a e"
| "eval_expr a (NotV v) = (if a v then 0 else 1)"

fun lit_true :: "assignment \<Rightarrow> lit \<Rightarrow> bool" where
  "lit_true a (Pos v) = a v"
| "lit_true a (Neg v) = (\<not> a v)"

fun cmp_holds :: "cmp \<Rightarrow> int \<Rightarrow> int \<Rightarrow> bool" where
  "cmp_holds EQ x y = (x = y)"
| "cmp_holds LE x y = (x \<le> y)"

fun ct_holds :: "assignment \<Rightarrow> ct \<Rightarrow> bool" where
  "ct_holds a (Linear l c r) = cmp_holds c (eval_expr a l) (eval_expr a r)"
| "ct_holds a (BoolOr ls) = list_ex (lit_true a) ls"
| "ct_holds a (AtLeastOne ls) = list_ex (lit_true a) ls"
| "ct_holds a (ExactlyOne ls) = (length (filter (lit_true a) ls) = 1)"
| "ct_holds a (Implication p q) = (if lit_true a p then lit_true a q else True)"

definition holds :: "assignment \<Rightarrow> constraint \<Rightarrow> bool" where
  "holds a c = (if list_all (lit_true a) (enforce c) then ct_holds a (body c) else True)"

text \<open>An assignment is a solution of a list of constraints when every one holds.\<close>

definition satisfies :: "assignment \<Rightarrow> constraint list \<Rightarrow> bool" where
  "satisfies a cs = list_all (holds a) cs"

section \<open>Run: the hard constraints\<close>

text \<open>\<^verbatim>\<open>range(Store.NUM_SLOTS)\<close>.\<close>

definition slots :: "int list" where
  "slots = [0..NUM_SLOTS - 1]"

text \<open>
  \<^verbatim>\<open>self.sched[(eid, slot, appt)]\<close> is a dictionary lookup: its keys are the employee
  ids and the slots of \<open>range(NUM_SLOTS)\<close>. Where the source indexes it with a loop
  variable over exactly those, the model writes \<open>Sched eid slot appt\<close>; where the slot
  comes from a shift's range, the lookup can fail and \<open>sched\<close> is used.
\<close>

definition sched :: "Config \<Rightarrow> nat \<Rightarrow> int \<Rightarrow> Appointment \<Rightarrow> error + var" where
  "sched cfg eid slot appt =
     (if eid < length (employees cfg) \<and> 0 \<le> slot \<and> slot < NUM_SLOTS
      then Inr (Sched eid slot appt) else Inl KeyError)"

definition ortools_or :: "var \<Rightarrow> var list \<Rightarrow> constraint list" where
  "ortools_or result ortools_vars =
     Add (BoolOr (map Pos ortools_vars @ [Neg result]))
     # [Add (Implication (Pos v) (Pos result)). v \<leftarrow> ortools_vars]"

definition ortools_and :: "var \<Rightarrow> var list \<Rightarrow> constraint list" where
  "ortools_and result ortools_vars =
     Add (BoolOr (map Neg ortools_vars @ [Pos result]))
     # [Add (Implication (Pos result) (Pos v)). v \<leftarrow> ortools_vars]"

text \<open>Hard Constraint: Shift start/end times, based on employee+shift.\<close>

definition hard_shift_times :: "Config \<Rightarrow> constraint list" where
  "hard_shift_times cfg =
     [Add (Linear (V (Sched eid slot NOT_HERE)) EQ
        (K (if \<not> in_range slot (time_range (shift (employees cfg ! eid))) then 1 else 0))).
      eid \<leftarrow> employee_ids cfg ''ALL'' False, slot \<leftarrow> slots]"

text \<open>Hard Constraint: Each employee has exactly one appointment per slot.\<close>

definition hard_exactly_one :: "Config \<Rightarrow> constraint list" where
  "hard_exactly_one cfg =
     [Add (ExactlyOne [Pos (Sched eid slot appt). appt \<leftarrow> all_appointments]).
      eid \<leftarrow> employee_ids cfg ''ALL'' False, slot \<leftarrow> slots]"

text \<open>Hard Constraint: Designated cashier is never regular/support/meeting.\<close>

definition hard_designated_cashier :: "Config \<Rightarrow> constraint list" where
  "hard_designated_cashier cfg =
     concat [if eid \<in> set (employee_ids cfg ''CASHIER'' False)
             then concat [[Add (Linear (V (Sched eid slot SUPPORT)) EQ (K 0)),
                           Add (Linear (V (Sched eid slot REGULAR)) EQ (K 0)),
                           Add (Linear (V (Sched eid slot MEETING)) EQ (K 0))]. slot \<leftarrow> slots]
             else []. eid \<leftarrow> employee_ids cfg ''ALL'' False]"

text \<open>Hard Constraint: At least one cashier at all times.\<close>

definition hard_at_least_one_cashier :: "Config \<Rightarrow> constraint list" where
  "hard_at_least_one_cashier cfg =
     [Add (AtLeastOne [Pos (Sched eid slot CASHIER). eid \<leftarrow> employee_ids cfg ''ALL'' False]).
      slot \<leftarrow> slots]"

text \<open>
  Hard Constraint: Obey self.config.register_count. \<open>curr_count\<close> is the inner loop over
  the epochs, started with \<^verbatim>\<open>None\<close>; comparing \<^verbatim>\<open>None\<close> with the number of designated
  cashiers is Python's TypeError.
\<close>

fun curr_count :: "epoch list \<Rightarrow> int \<Rightarrow> int option \<Rightarrow> int option" where
  "curr_count [] slot acc = acc"
| "curr_count (e # es) slot acc =
     (if slot < epoch_start e then acc else curr_count es slot (Some (epoch_count e)))"

definition register_count_message :: "int \<Rightarrow> int \<Rightarrow> int \<Rightarrow> string" where
  "register_count_message slot c num_designated =
     ''config.REGISTER_COUNT needs updating: At '' @ slot_to_time slot
     @ '', register_count is '' @ py_str c
     @ '' but there are '' @ py_str num_designated @ '' designated cashiers!''"

definition obey_register_count :: "Config \<Rightarrow> int \<Rightarrow> error + constraint" where
  "obey_register_count cfg slot =
     (let num_designated = number_of_designated_cashiers_here cfg slot in
      case curr_count (register_count cfg) slot None of
        None \<Rightarrow> Inl TypeError
      | Some c \<Rightarrow>
          if c < num_designated
          then Inl (SystemExit (register_count_message slot c num_designated))
          else Inr (Add (Linear
                 (Sum ([V (Sched eid slot CASHIER). eid \<leftarrow> employee_ids cfg ''ALL'' False]
                     @ [V (Sched eid slot SUPPORT). eid \<leftarrow> employee_ids cfg ''ALL'' False]))
                 EQ (K c))))"

definition hard_register_count :: "Config \<Rightarrow> error + constraint list" where
  "hard_register_count cfg = err_map (obey_register_count cfg) slots"

text \<open>Hard Constraint: Non-cashier shouldn't be made cashier at same time as another cashier.\<close>

definition hard_non_cashier_cashiers :: "Config \<Rightarrow> constraint list" where
  "hard_non_cashier_cashiers cfg =
     concat [ortools_or (NonCashierCashiers slot)
               [Sched eid slot CASHIER. eid \<leftarrow> employee_ids cfg ''CASHIER'' True]
             @ [OnlyEnforceIf
                  (Add (Linear (Sum [V (Sched eid slot CASHIER). eid \<leftarrow> employee_ids cfg ''ALL'' False])
                     EQ (K 1)))
                  (Pos (NonCashierCashiers slot))].
             slot \<leftarrow> slots]"

text \<open>Hard Constraint: Two breaks per employee.\<close>

definition hard_two_breaks :: "Config \<Rightarrow> constraint list" where
  "hard_two_breaks cfg =
     [Add (Linear (Sum [V (Sched eid slot BREAK). slot \<leftarrow> slots]) EQ (K 2)).
      eid \<leftarrow> employee_ids cfg ''ALL'' False]"

text \<open>Hard Constraint: One lunch-hour per employee.\<close>

definition hard_one_lunch_hour :: "Config \<Rightarrow> constraint list" where
  "hard_one_lunch_hour cfg =
     [Add (Linear (Sum [V (Sched eid slot LUNCH). slot \<leftarrow> slots]) EQ (K SLOTS_PER_HOUR)).
      eid \<leftarrow> employee_ids cfg ''ALL'' False]"

text \<open>Hard Constraint: Employee gets one lunch, on the hour, from lunch_slots().\<close>

definition lunch_on_the_hour :: "nat \<Rightarrow> int list \<Rightarrow> constraint list" where
  "lunch_on_the_hour eid ls =
     Add (ExactlyOne [Pos (Sched eid slot LUNCH). slot \<leftarrow> ls])
     # concat [ortools_and (ToTheRight eid slot)
                 [Sched eid ss LUNCH. ss \<leftarrow> [slot + 1..slot + SLOTS_PER_HOUR - 1]]
               @ [Add (Implication (Pos (Sched eid slot LUNCH)) (Pos (ToTheRight eid slot)))].
               slot \<leftarrow> ls]"

definition hard_lunch_on_the_hour :: "Config \<Rightarrow> error + constraint list" where
  "hard_lunch_on_the_hour cfg =
     err_bind (err_map (\<lambda>eid. err_bind lunch_slots (\<lambda>ls. Inr (lunch_on_the_hour eid ls)))
                 (employee_ids cfg ''ALL'' False))
       (\<lambda>css. Inr (concat css))"

text \<open>Hard Constraint: Employee never starts off with lunch.\<close>

definition hard_never_starts_with_lunch :: "Config \<Rightarrow> error + constraint list" where
  "hard_never_starts_with_lunch cfg =
     err_map (\<lambda>eid.
         err_bind (sched cfg eid (start (time_range (shift (employees cfg ! eid)))) LUNCH)
           (\<lambda>v. Inr (Add (Linear (V v) EQ (K 0)))))
       (employee_ids cfg ''ALL'' False)"

text \<open>Hard Constraint: Obey self.config.meetings.\<close>

definition hard_meetings :: "Config \<Rightarrow> error + constraint list" where
  "hard_meetings cfg =
     err_bind
       (err_map (\<lambda>(e_name, ms).
           err_bind (employee_name_to_id cfg e_name) (\<lambda>eid.
             Inr [Add (Linear (V (Sched eid slot MEETING)) EQ
                    (K (if list_ex (in_range slot) ms then 1 else 0))). slot \<leftarrow> slots]))
          (meetings cfg))
       (\<lambda>css. Inr (concat css
          @ concat [if name (employees cfg ! eid) \<notin> set (map fst (meetings cfg))
                    then [Add (Linear (V (Sched eid slot MEETING)) EQ (K 0)). slot \<leftarrow> slots]
                    else []. eid \<leftarrow> employee_ids cfg ''ALL'' False]))"

text \<open>
  \<open>add_hard_constraints\<close> runs the sections in this order; the first exception ends the
  construction, and the sections that cannot raise are written as plain lists.
\<close>

definition add_hard_constraints :: "Config \<Rightarrow> error + constraint list" where
  "add_hard_constraints cfg =
     err_bind (hard_register_count cfg) (\<lambda>register.
     err_bind (hard_lunch_on_the_hour cfg) (\<lambda>lunch.
     err_bind (hard_never_starts_with_lunch cfg) (\<lambda>no_lunch_first.
     err_bind (hard_meetings cfg) (\<lambda>meeting.
       Inr (hard_shift_times cfg @ hard_exactly_one cfg @ hard_designated_cashier cfg
            @ hard_at_least_one_cashier cfg @ register @ hard_non_cashier_cashiers cfg
            @ hard_two_breaks cfg @ hard_one_lunch_hour cfg @ lunch @ no_lunch_first
            @ meeting)))))"

text \<open>
  The value in force in the spec's words: the count of the last epoch whose
  effective-from slot is at or before the slot, if there is one. A step schedule over
  the day lists its epochs in the order of their effective-from slots and has its first
  epoch in force at opening.
\<close>

definition value_in_force :: "epoch list \<Rightarrow> int \<Rightarrow> int option" where
  "value_in_force epochs slot =
     (let at_or_before = filter (\<lambda>e. epoch_start e \<le> slot) epochs in
      if at_or_before = [] then None else Some (epoch_count (last at_or_before)))"

definition step_schedule :: "epoch list \<Rightarrow> bool" where
  "step_schedule epochs =
     (epochs \<noteq> [] \<and> epoch_start (hd epochs) \<le> 0 \<and> sorted (map epoch_start epochs))"

section \<open>Run: the soft constraints\<close>

text \<open>
  The procedures of the registry get the toggle of the record being built,
  \<^verbatim>\<open>self.curr_soft_enable\<close>, as an argument.
\<close>

definition cap_simultaneous_appointments ::
  "Config \<Rightarrow> lit \<Rightarrow> Appointment list \<Rightarrow> int \<Rightarrow> constraint list" where
  "cap_simultaneous_appointments cfg curr_soft_enable appointments cap =
     [OnlyEnforceIf
        (Add (Linear
           (Sum [V (Sched eid slot appt).
                 eid \<leftarrow> employee_ids cfg ''ALL'' False, appt \<leftarrow> appointments])
           LE (K cap)))
        curr_soft_enable.
      slot \<leftarrow> slots]"

text \<open>
  \<open>cap_register_in_span\<close> reads \<open>sched\<close> at the slots of each non-cashier's shift range,
  a KeyError when one of them is outside the day; no call of \<^verbatim>\<open>OnlyEnforceIf\<close> follows
  its \<^verbatim>\<open>Add\<close>, so it takes no toggle.
\<close>

definition register_in_span :: "Config \<Rightarrow> int \<Rightarrow> int \<Rightarrow> nat \<Rightarrow> int \<Rightarrow> error + constraint" where
  "register_in_span cfg cap slot_span eid slot_base =
     (let shift_range = time_range (shift (employees cfg ! eid)) in
      err_bind
        (err_map (\<lambda>(slot, appt). sched cfg eid slot appt)
           [(slot, appt).
            slot \<leftarrow> [slot_base..min (stop shift_range) (slot_base + slot_span) - 1],
            appt \<leftarrow> [CASHIER, SUPPORT]])
        (\<lambda>vs. Inr (Add (Linear (Sum (map V vs)) LE (K cap)))))"

definition cap_register_in_span :: "Config \<Rightarrow> int \<Rightarrow> int \<Rightarrow> error + constraint list" where
  "cap_register_in_span cfg cap slot_span =
     err_bind
       (err_map (\<lambda>eid.
           err_map (register_in_span cfg cap slot_span eid)
             (range_list (time_range (shift (employees cfg ! eid)))))
          (employee_ids cfg ''CASHIER'' True))
       (\<lambda>css. Inr (concat css))"

text \<open>
  The registry of \<open>add_soft_constraints\<close>: each record's name, weight and procedure with
  its arguments, in the source's order. A procedure is named by a constructor;
  \<open>Cap_simultaneous_appointments_if n\<close> is the closure that calls
  \<open>cap_simultaneous_appointments\<close> only if the roster has at most \<open>n\<close> employees, and
  the subgroups of employees are named by their filter.
\<close>

datatype func =
    Require_aesthetics_and_break_symmetries
  | Cap_simultaneous_appointments "Appointment list" int
  | Cap_simultaneous_appointments_if nat "Appointment list" int
  | Require_min_gap_break_from_start_end int int
  | Require_break_lunches_gap int
  | Cap_non_cashier_appointment_delta "Appointment list" int
  | Ban_simultaneous_break_lunch_for_subgroup string
  | Available_when_here_if_mult string "Appointment list" nat
  | Require_lunches_balanced
  | Require_fair_lunch_order
  | Require_stricter_lunch_bounds
  | Ban_register_for_nbc_if_alone
  | Ban_register_for_non_cashier_as_first_thing_in_day_if_not_opening
  | Cap_register_in_span int int

record SoftConstraint =
  sc_name :: string
  weight :: int
  func :: func

definition enable :: "SoftConstraint \<Rightarrow> var" where
  "enable c = Enable (sc_name c)"

definition SoftConstraint_init :: "string \<Rightarrow> int \<Rightarrow> func \<Rightarrow> SoftConstraint" where
  "SoftConstraint_init n w f = \<lparr>sc_name = n, weight = w, func = f\<rparr>"

definition soft_constraints :: "SoftConstraint list" where
  "soft_constraints =
   [SoftConstraint_init ''aesthetics'' 1 Require_aesthetics_and_break_symmetries,
    SoftConstraint_init ''break-3'' 2 (Cap_simultaneous_appointments [BREAK] 3),
    SoftConstraint_init ''break-4'' 3 (Cap_simultaneous_appointments [BREAK] 4),
    SoftConstraint_init ''break-5'' 4 (Cap_simultaneous_appointments [BREAK] 5),
    SoftConstraint_init ''break-bound-gap-44'' 4 (Require_min_gap_break_from_start_end 4 4),
    SoftConstraint_init ''break-bound-gap-54'' 2 (Require_min_gap_break_from_start_end 5 4),
    SoftConstraint_init ''break-bound-gap-11'' 999 (Require_min_gap_break_from_start_end 1 1),
    SoftConstraint_init ''break-lunch-gap-3'' 10 (Require_break_lunches_gap 3),
    SoftConstraint_init ''break-lunch-gap-4'' 4 (Require_break_lunches_gap 4),
    SoftConstraint_init ''breakroom-4-if-12'' 2 (Cap_simultaneous_appointments_if 12 [BREAK, LUNCH] 4),
    SoftConstraint_init ''breakroom-5'' 3 (Cap_simultaneous_appointments [BREAK, LUNCH] 5),
    SoftConstraint_init ''breakroom-6'' 10 (Cap_simultaneous_appointments [BREAK, LUNCH] 6),
    SoftConstraint_init ''breakroom-7'' 999 (Cap_simultaneous_appointments [BREAK, LUNCH] 6),
    SoftConstraint_init ''cashier-diff-0'' 10 (Cap_non_cashier_appointment_delta [CASHIER] 0),
    SoftConstraint_init ''cashier-diff-1'' 20 (Cap_non_cashier_appointment_delta [CASHIER] 1),
    SoftConstraint_init ''cashier-diff-2'' 30 (Cap_non_cashier_appointment_delta [CASHIER] 2),
    SoftConstraint_init ''cashier-diff-3'' 40 (Cap_non_cashier_appointment_delta [CASHIER] 3),
    SoftConstraint_init ''cashier-diff-4'' 999 (Cap_non_cashier_appointment_delta [CASHIER] 4),
    SoftConstraint_init ''diff-break-cashiers'' 8 (Ban_simultaneous_break_lunch_for_subgroup ''CASHIER''),
    SoftConstraint_init ''fulltime-avail'' 1
      (Available_when_here_if_mult ''FULLTIME'' [REGULAR, CASHIER, SUPPORT] 0),
    SoftConstraint_init ''lunch-4-if-16'' 2 (Cap_simultaneous_appointments_if 16 [LUNCH] 4),
    SoftConstraint_init ''lunch-balance'' 1 Require_lunches_balanced,
    SoftConstraint_init ''lunch-fair-order'' 2 Require_fair_lunch_order,
    SoftConstraint_init ''lunch-strict-bounds'' 20 Require_stricter_lunch_bounds,
    SoftConstraint_init ''nbc-avail'' 1 (Available_when_here_if_mult ''NBC'' [REGULAR] 0),
    SoftConstraint_init ''nbc-avail-except-1'' 4 (Available_when_here_if_mult ''NBC'' [REGULAR] 1),
    SoftConstraint_init ''nbc-avail-except-2'' 8 (Available_when_here_if_mult ''NBC'' [REGULAR] 2),
    SoftConstraint_init ''nbc-avail-except-3'' 12 (Available_when_here_if_mult ''NBC'' [REGULAR] 3),
    SoftConstraint_init ''nbc-avail-except-4'' 20 (Available_when_here_if_mult ''NBC'' [REGULAR] 4),
    SoftConstraint_init ''nbc-diff-break'' 4 (Ban_simultaneous_break_lunch_for_subgroup ''NBC''),
    SoftConstraint_init ''nbc-no-reg-if-alone'' 4 Ban_register_for_nbc_if_alone,
    SoftConstraint_init ''no-reg-first-thing'' 4
      Ban_register_for_non_cashier_as_first_thing_in_day_if_not_opening,
    SoftConstraint_init ''register-diff-0'' 10 (Cap_non_cashier_appointment_delta [CASHIER, SUPPORT] 0),
    SoftConstraint_init ''register-diff-1'' 20 (Cap_non_cashier_appointment_delta [CASHIER, SUPPORT] 1),
    SoftConstraint_init ''register-diff-2'' 30 (Cap_non_cashier_appointment_delta [CASHIER, SUPPORT] 2),
    SoftConstraint_init ''register-diff-3'' 40 (Cap_non_cashier_appointment_delta [CASHIER, SUPPORT] 3),
    SoftConstraint_init ''register-diff-4'' 999 (Cap_non_cashier_appointment_delta [CASHIER, SUPPORT] 4),
    SoftConstraint_init ''register-max-4-in-16'' 4 (Cap_register_in_span 4 16),
    SoftConstraint_init ''register-max-6-in-16'' 99 (Cap_register_in_span 6 16)]"

text \<open>
  \<^verbatim>\<open>c.func()\<close>. The crowding caps and the register caps are the procedures above; the
  other procedures enter as the parameter \<open>others\<close>, so what is proved holds whatever
  constraints they add.
\<close>

type_synonym procedures = "Config \<Rightarrow> lit \<Rightarrow> func \<Rightarrow> error + constraint list"

definition call_func :: "procedures \<Rightarrow> Config \<Rightarrow> lit \<Rightarrow> func \<Rightarrow> error + constraint list" where
  "call_func others cfg curr_soft_enable f =
     (case f of
        Cap_simultaneous_appointments appointments cap \<Rightarrow>
          Inr (cap_simultaneous_appointments cfg curr_soft_enable appointments cap)
      | Cap_simultaneous_appointments_if n appointments cap \<Rightarrow>
          if length (employee_ids cfg ''ALL'' False) \<le> n
          then Inr (cap_simultaneous_appointments cfg curr_soft_enable appointments cap)
          else Inr []
      | Cap_register_in_span cap slot_span \<Rightarrow> cap_register_in_span cfg cap slot_span
      | _ \<Rightarrow> others cfg curr_soft_enable f)"

definition add_soft_constraints :: "procedures \<Rightarrow> Config \<Rightarrow> error + constraint list" where
  "add_soft_constraints others cfg =
     err_bind (err_map (\<lambda>c. call_func others cfg (Pos (enable c)) (func c)) soft_constraints)
       (\<lambda>css. Inr (concat css))"

definition soft_objective :: expr where
  "soft_objective = Sum [Times (weight c) (NotV (enable c)). c \<leftarrow> soft_constraints]"

section \<open>Run, the relaxation ladder and the refinement\<close>

record model =
  constraints :: "constraint list"
  objective :: "expr option"
  hints :: "(var \<times> bool) list"

record Run =
  run_config :: Config
  run_model :: model
  to_minimize_later :: "expr list"

text \<open>
  \<open>Run.__init__\<close>. \<open>setup_idealistic_objectives\<close> enters as the parameter \<open>ideal\<close>: the
  constraints it adds and its list \<open>to_minimize_later\<close>.
\<close>

definition Run_init ::
  "procedures \<Rightarrow> (Config \<Rightarrow> error + constraint list \<times> expr list) \<Rightarrow> Config \<Rightarrow> error + Run" where
  "Run_init others ideal cfg =
     err_bind (add_hard_constraints cfg) (\<lambda>hard.
     err_bind (add_soft_constraints others cfg) (\<lambda>soft.
     err_bind (ideal cfg) (\<lambda>(ideal_constraints, to_minimize).
       Inr \<lparr>run_config = cfg,
            run_model = \<lparr>constraints = hard @ soft @ ideal_constraints,
                         objective = Some soft_objective, hints = []\<rparr>,
            to_minimize_later = to_minimize\<rparr>)))"

datatype status = OPTIMAL | FEASIBLE | INFEASIBLE | UNKNOWN | MODEL_INVALID

text \<open>
  The solver is outside the program: \<open>solver n t m\<close> is what the \<open>n\<close>-th call of
  \<^verbatim>\<open>solver.Solve\<close> returns on the model \<open>m\<close> under the time limit \<open>t\<close>, a status and the
  values of the variables. A trace lists the calls made so far.
\<close>

type_synonym solver = "nat \<Rightarrow> int \<Rightarrow> model \<Rightarrow> status \<times> assignment"
type_synonym trace = "(int \<times> model) list"

text \<open>
  The model \<open>make_schedule_idealistic\<close> hands to the second solve: the objective is
  cleared, every toggle is pinned to its value in the solution found, every
  variable of \<open>sched\<close> but the \<open>REGULAR\<close> ones gets that solution's value as a hint, and
  the sum of \<open>to_minimize_later\<close> is the new objective.
\<close>

definition refinement_model :: "Run \<Rightarrow> model \<Rightarrow> assignment \<Rightarrow> error + model" where
  "refinement_model run m sol =
     (if objective m = None then Inl AssertionError
      else Inr \<lparr>constraints = constraints m
                   @ [Add (Linear (V (enable c)) EQ (K (if sol (enable c) then 1 else 0))).
                      c \<leftarrow> soft_constraints],
                objective = Some (Sum (to_minimize_later run)),
                hints = hints m
                   @ [(Sched eid slot appt, sol (Sched eid slot appt)).
                      eid \<leftarrow> employee_ids (run_config run) ''ALL'' False, slot \<leftarrow> slots,
                      appt \<leftarrow> filter (\<lambda>appt. appt \<noteq> REGULAR) all_appointments]\<rparr>)"

definition make_schedule_idealistic ::
  "solver \<Rightarrow> Run \<Rightarrow> model \<Rightarrow> assignment \<Rightarrow> trace \<Rightarrow> (error + unit) \<times> trace" where
  "make_schedule_idealistic solver run m sol tr =
     (case refinement_model run m sol of
        Inl e \<Rightarrow> (Inl e, tr)
      | Inr m' \<Rightarrow>
          let status = fst (solver (length tr) 60 m'); tr' = tr @ [(60, m')] in
          if status \<in> set [INFEASIBLE, MODEL_INVALID] then (Inl AssertionError, tr')
          else (Inr (), tr'))"

definition attempt_to_solve ::
  "solver \<Rightarrow> int \<Rightarrow> Run \<Rightarrow> model \<Rightarrow> trace \<Rightarrow> (error + bool) \<times> trace" where
  "attempt_to_solve solver max_time run m tr =
     (let (status, sol) = solver (length tr) max_time m; tr' = tr @ [(max_time, m)] in
      if status \<in> set [OPTIMAL, FEASIBLE] then
        (case make_schedule_idealistic solver run m sol tr' of
           (Inl e, tr'') \<Rightarrow> (Inl e, tr'')
         | (Inr u, tr'') \<Rightarrow> (Inr True, tr''))
      else if status = INFEASIBLE then (Inr False, tr')
      else if status = UNKNOWN then (Inr False, tr')
      else (Inl (SystemExit ''Model is invalid. That is a bug! Exiting.''), tr'))"

text \<open>The forced-disabled sets \<open>main\<close> tries, in its order.\<close>

definition ladder :: "string list list" where
  "ladder =
     [[],
      [''cashier-diff-0''],
      [''register-diff-0''],
      [''cashier-diff-0'', ''register-diff-0''],
      [''cashier-diff-0'', ''register-diff-0'', ''cashier-diff-1''],
      [''cashier-diff-0'', ''register-diff-0'', ''register-diff-1''],
      [''cashier-diff-0'', ''register-diff-0'', ''cashier-diff-1'', ''register-diff-1'']]"

definition per_run_constraints :: "string list \<Rightarrow> constraint list" where
  "per_run_constraints disabled_constraints =
     [Add (Linear (V (enable c)) EQ (K (if sc_name c \<notin> set disabled_constraints then 1 else 0))).
      c \<leftarrow> soft_constraints]"

text \<open>
  The loop of \<open>main\<close> over the ladder. After a failed attempt the source clears the
  per-run constraints, which leaves empty constraints in the model; the model drops them.
\<close>

fun ladder_loop :: "solver \<Rightarrow> Run \<Rightarrow> string list list \<Rightarrow> trace \<Rightarrow> (error + bool) \<times> trace" where
  "ladder_loop solver run [] tr = (Inr False, tr)"
| "ladder_loop solver run (disabled_constraints # rest) tr =
     (let m = run_model run;
          pinned = m\<lparr>constraints := constraints m @ per_run_constraints disabled_constraints\<rparr>
      in case attempt_to_solve solver 15 run pinned tr of
           (Inl e, tr') \<Rightarrow> (Inl e, tr')
         | (Inr True, tr') \<Rightarrow> (Inr True, tr')
         | (Inr False, tr') \<Rightarrow> ladder_loop solver run rest tr')"

text \<open>
  \<open>main\<close>: \<open>Inr True\<close> when a schedule was found and refined, \<open>Inr False\<close> when every
  attempt was infeasible or ran out of time (the source prints its two possibilities
  and returns), \<open>Inl e\<close> when an exception ended the run; with the calls of the solver.
\<close>

definition main ::
  "solver \<Rightarrow> procedures \<Rightarrow> (Config \<Rightarrow> error + constraint list \<times> expr list) \<Rightarrow>
   (string \<times> bool \<times> string) list \<Rightarrow> (string \<times> string) list \<Rightarrow>
   (string \<times> (string \<times> string) list) list \<Rightarrow> (int \<times> string) list \<Rightarrow>
   (error + bool) \<times> trace" where
  "main solver others ideal info schedule meetings_today register_today =
     (case Config_init info schedule meetings_today register_today of
        Inl e \<Rightarrow> (Inl e, [])
      | Inr cfg \<Rightarrow>
          (case Run_init others ideal cfg of
             Inl e \<Rightarrow> (Inl e, [])
           | Inr run \<Rightarrow>
               (case ladder_loop solver run ladder [] of
                  (Inr False, tr) \<Rightarrow> attempt_to_solve solver 60 run (run_model run) tr
                | r \<Rightarrow> r)))"

section \<open>Example rosters\<close>

text \<open>
  Small inputs of \<open>Config_init\<close> on which the theorems below are evaluated; the names
  and departments are entries of the repository's \<^verbatim>\<open>config.py\<close>.
\<close>

definition example_info :: "(string \<times> bool \<times> string) list" where
  "example_info =
     [(''A1'', (False, ''SD'')),
      (''B1'', (False, ''CASHIER'')),
      (''E1'', (False, ''CASHIER'')),
      (''K3'', (True, ''OTHER''))]"

text \<open>A roster that lists the name \<open>A1\<close> twice.\<close>

definition twice_listed :: Config where
  "twice_listed =
     \<lparr>employees =
        [\<lparr>shift = \<lparr>config = ''E'', is_fulltime = False, time_range = \<lparr>start = 0, stop = 31\<rparr>\<rparr>,
          name = ''A1'', dept = ''SD''\<rparr>,
         \<lparr>shift = \<lparr>config = ''L'', is_fulltime = False, time_range = \<lparr>start = 8, stop = 40\<rparr>\<rparr>,
          name = ''A1'', dept = ''SD''\<rparr>],
      meetings = [], register_count = [\<lparr>epoch_count = 1, epoch_start = 0\<rparr>]\<rparr>"

text \<open>
  A designated cashier and a helper of another department, both present all day, under a
  register count of 1; in \<open>day_plan\<close> the helper takes the register while the cashier is
  on break or at lunch. Every toggle is off in \<open>day_plan\<close>.
\<close>

definition cashier_and_helper :: Config where
  "cashier_and_helper =
     \<lparr>employees =
        [\<lparr>shift = \<lparr>config = ''10:00-8:00'', is_fulltime = False,
                   time_range = \<lparr>start = 0, stop = 40\<rparr>\<rparr>,
          name = ''B1'', dept = ''CASHIER''\<rparr>,
         \<lparr>shift = \<lparr>config = ''10:00-8:00'', is_fulltime = False,
                   time_range = \<lparr>start = 0, stop = 40\<rparr>\<rparr>,
          name = ''A1'', dept = ''SD''\<rparr>],
      meetings = [], register_count = [\<lparr>epoch_count = 1, epoch_start = 0\<rparr>]\<rparr>"






text \<open>
  A run whose model holds the pins of the ladder's second rung, a solution \<open>found\<close> for
  it, and an assignment \<open>refined\<close> with the same toggles and other slot values.
\<close>

definition pinned_run :: Run where
  "pinned_run =
     \<lparr>run_config = cashier_and_helper,
      run_model = \<lparr>constraints = per_run_constraints [''cashier-diff-0''],
                   objective = Some soft_objective, hints = []\<rparr>,
      to_minimize_later = []\<rparr>"

definition found :: assignment where
  "found v = (v \<noteq> Enable ''cashier-diff-0'')"

definition refined :: assignment where
  "refined v = (case v of Enable n \<Rightarrow> n \<noteq> ''cashier-diff-0'' | _ \<Rightarrow> False)"

section \<open>Exceptions in sequence\<close>

lemma err_bind_Inr [simp]: "err_bind (Inr x) f = f x"
  by (simp add: err_bind_def)

lemma err_bind_Inl [simp]: "err_bind (Inl e) f = Inl e"
  by (simp add: err_bind_def)

lemma err_bind_eq_Inr:
  "err_bind m f = Inr y \<longleftrightarrow> (\<exists>x. m = Inr x \<and> f x = Inr y)"
  by (cases m) simp_all

lemma err_map_append:
  "err_map f (xs @ ys) =
     err_bind (err_map f xs) (\<lambda>a. err_bind (err_map f ys) (\<lambda>b. Inr (a @ b)))"
proof (induction xs)
  case Nil
  show ?case by (cases "err_map f ys") simp_all
next
  case (Cons x xs)
  show ?case
  proof (cases "f x")
    case (Inl e)
    then show ?thesis by simp
  next
    case (Inr y)
    then show ?thesis
      by (cases "err_map f xs"; cases "err_map f ys") (simp_all add: Cons.IH)
  qed
qed

lemma err_map_stops:
  assumes "err_map f before = Inr ys" and "f x = Inl e"
  shows "err_map f (before @ x # after) = Inl e"
  using assms by (simp add: err_map_append)

lemma err_map_Inr_member:
  "err_map f xs = Inr ys \<Longrightarrow> x \<in> set xs \<Longrightarrow> \<exists>y. f x = Inr y \<and> y \<in> set ys"
proof (induction xs arbitrary: ys)
  case Nil
  then show ?case by simp
next
  case (Cons z zs)
  from Cons.prems(1) obtain y ys' where fz: "f z = Inr y" and rest: "err_map f zs = Inr ys'"
    and ys: "ys = y # ys'"
    by (auto simp: err_bind_eq_Inr)
  show ?case
  proof (cases "x = z")
    case True
    with fz ys show ?thesis by simp
  next
    case False
    with Cons.prems(2) have "x \<in> set zs" by simp
    from Cons.IH [OF rest this] ys show ?thesis by auto
  qed
qed

lemma err_map_Inr_map:
  "(\<And>x. x \<in> set xs \<Longrightarrow> f x = Inr (g x)) \<Longrightarrow> err_map f xs = Inr (map g xs)"
  by (induction xs) simp_all

section \<open>Time conversion\<close>

lemma slots_roundtrip_all:
  "list_all (\<lambda>s. time_to_slot (slot_to_time s) = Inr s) [0..47]"
  by code_simp

lemma slot_roundtrip:
  assumes "0 \<le> s" and "s < 48"
  shows "time_to_slot (slot_to_time s) = Inr s"
proof -
  have "s \<in> set [0..47]" using assms by simp
  then show ?thesis using slots_roundtrip_all unfolding list_all_iff by blast
qed

lemma is_digit_not_sign: "is_digit c \<Longrightarrow> c \<noteq> CHR ''-'' \<and> c \<noteq> CHR ''+''"
  by (auto simp: is_digit_def)

lemma py_int_digits:
  "ds \<noteq> [] \<Longrightarrow> list_all is_digit ds \<Longrightarrow> py_int ds = Inr (int (digits_value ds))"
  by (cases ds) (auto simp: py_int_def dest: is_digit_not_sign)

lemma valid_time_slot:
  assumes "valid_time t"
  shows "\<exists>s. time_to_slot t = Inr s \<and> 0 \<le> s \<and> s \<le> 40"
proof -
  define hs where "hs = takeWhile (\<lambda>x. x \<noteq> CHR '':'') t"
  define ms where "ms = drop (length hs + 1) t"
  define h0 where "h0 = digits_value hs"
  define m where "m = digits_value ms"
  define h where "h = (if h0 < 10 then h0 + 12 else h0)"
  from assms have t: "t = hs @ '':'' @ ms" and lh: "hs \<noteq> []" and lm: "ms \<noteq> []"
    and dh: "list_all is_digit hs" and dm: "list_all is_digit ms"
    and m60: "m < 60" and h10: "10 \<le> h" and h20: "h < 20 \<or> (h = 20 \<and> m = 0)"
    unfolding valid_time_def Let_def hs_def [symmetric] ms_def [symmetric]
      h0_def [symmetric] m_def [symmetric] h_def [symmetric]
    by auto
  have "CHR '':'' \<in> set t" by (subst t) simp
  then have idx: "str_index t (CHR '':'') = Inr (length hs)"
    by (simp add: str_index_def hs_def)
  have tk: "take (length hs) t = hs" using t by simp
  have dr: "drop (Suc (length hs)) t = ms" by (simp add: ms_def)
  have "time_to_slot t = Inr ((int h - 10) * 4 + int m div 15)"
    unfolding time_to_slot_def idx
    by (simp add: err_bind_def tk dr py_int_digits [OF lh dh] py_int_digits [OF lm dm]
        h0_def [symmetric] m_def [symmetric] h_def TIME_OPEN_def SLOTS_PER_HOUR_def
        MINUTES_PER_SLOT_def)
  moreover have "0 \<le> (int h - 10) * 4 + int m div 15" using h10 by simp
  moreover have "(int h - 10) * 4 + int m div 15 \<le> 40" using h20 m60 by auto
  ultimately show ?thesis by blast
qed

text \<open>
  C8. For every time string \<open>t\<close> of the documented format in the open hours,
  \<open>time_to_slot\<close> accepts \<open>t\<close>, and converting its slot to a time string and back gives
  the same slot: \<open>time_to_slot (slot_to_time (time_to_slot t)) = time_to_slot t\<close>.
\<close>

theorem time_conversion_same_slot:
  assumes "valid_time t"
  shows "\<exists>s. time_to_slot t = Inr s \<and> time_to_slot (slot_to_time s) = time_to_slot t"
proof -
  from valid_time_slot [OF assms] obtain s
    where s: "time_to_slot t = Inr s" "0 \<le> s" "s \<le> 40"
    by blast
  then have "time_to_slot (slot_to_time s) = Inr s" by (simp add: slot_roundtrip)
  with s show ?thesis by simp
qed

text \<open>
  The hypothesis holds at \<open>2:50\<close>, which is in slot 19; the slot's own string is
  \<open>2:45\<close>, so the string is not reproduced, only the slot.
\<close>

theorem time_conversion_same_slot_witness:
  "valid_time ''2:50'' \<and> time_to_slot ''2:50'' = Inr 19 \<and> slot_to_time 19 = ''2:45''
   \<and> time_to_slot (slot_to_time 19) = time_to_slot ''2:50''"
proof -
  have v: "valid_time ''2:50''" by code_simp
  have t: "time_to_slot ''2:50'' = Inr 19" by code_simp
  have s: "slot_to_time 19 = ''2:45''" by code_simp
  from time_conversion_same_slot [OF v] t
  have "time_to_slot (slot_to_time 19) = time_to_slot ''2:50''" by simp
  with v t s show ?thesis by simp
qed

section \<open>The relaxation ladder\<close>

lemma ladder_pairs:
  "list_all (\<lambda>i. list_all (\<lambda>j.
      if i < j then
        (set (ladder ! i) \<subseteq> set (ladder ! j) \<or> (i, j) = (1, 2) \<or> (i, j) = (4, 5))
        \<and> length (ladder ! i) \<le> length (ladder ! j)
        \<and> \<not> set (ladder ! j) \<subset> set (ladder ! i)
        \<and> set (ladder ! i) \<subseteq> set (last ladder)
      else True) [0..<7]) [0..<7]"
  by code_simp

lemma length_ladder: "length ladder = 7"
  by (simp add: ladder_def)

text \<open>
  C2, as the code has it. Counting rungs from 0, for rungs \<open>i < j\<close> of the ladder the
  forced-disabled set of rung \<open>i\<close> is contained in that of rung \<open>j\<close> except for the two
  pairs of sibling rungs \<open>(1, 2)\<close> and \<open>(4, 5)\<close>; for every pair the later set has at
  least as many names, is no proper subset of the earlier one, and every rung is
  contained in the last rung.
\<close>

theorem ladder_never_shrinks:
  assumes "i < j" and "j < length ladder"
  shows "(set (ladder ! i) \<subseteq> set (ladder ! j) \<or> (i, j) = (1, 2) \<or> (i, j) = (4, 5))
     \<and> length (ladder ! i) \<le> length (ladder ! j)
     \<and> \<not> set (ladder ! j) \<subset> set (ladder ! i)
     \<and> set (ladder ! i) \<subseteq> set (last ladder)"
proof -
  have "i \<in> set [0..<7]" and "j \<in> set [0..<7]"
    using assms by (simp_all add: length_ladder)
  with ladder_pairs have
    "if i < j then
        (set (ladder ! i) \<subseteq> set (ladder ! j) \<or> (i, j) = (1, 2) \<or> (i, j) = (4, 5))
        \<and> length (ladder ! i) \<le> length (ladder ! j)
        \<and> \<not> set (ladder ! j) \<subset> set (ladder ! i)
        \<and> set (ladder ! i) \<subseteq> set (last ladder)
      else True"
    unfolding list_all_iff by blast
  with assms show ?thesis by simp
qed

text \<open>Rungs 3 and 6: the hypotheses hold and the earlier set is contained in the later.\<close>

theorem ladder_never_shrinks_witness:
  "(3::nat) < 6 \<and> 6 < length ladder \<and> set (ladder ! 3) \<subseteq> set (ladder ! 6)
   \<and> length (ladder ! 3) \<le> length (ladder ! 6)"
proof -
  have a: "(3::nat) < 6" by simp
  have b: "6 < length ladder" by (simp add: length_ladder)
  from ladder_never_shrinks [OF a b] show ?thesis using a b by simp
qed

text \<open>
  The subset order fails between rungs 1 and 2: rung 1 disables \<open>cashier-diff-0\<close> and
  rung 2 disables only \<open>register-diff-0\<close>, so rung 2 enables \<open>cashier-diff-0\<close> again.
\<close>

theorem ladder_not_monotone:
  "\<not> (\<forall>i j. i < j \<and> j < length ladder \<longrightarrow> set (ladder ! i) \<subseteq> set (ladder ! j))"
proof
  assume "\<forall>i j. i < j \<and> j < length ladder \<longrightarrow> set (ladder ! i) \<subseteq> set (ladder ! j)"
  then have "(1::nat) < 2 \<and> 2 < length ladder \<longrightarrow> set (ladder ! 1) \<subseteq> set (ladder ! 2)"
    by blast
  then show False by (simp add: ladder_def)
qed

section \<open>Name lookup\<close>

lemma filter_enumerate:
  "length is = length xs \<Longrightarrow>
   map snd (filter (\<lambda>(i, x). P x) (zip is xs)) = filter P xs"
  by (induction "is" xs rule: list_induct2) auto

lemma name_matches_length:
  "length (map fst (filter (\<lambda>(eid, emp). name emp = nm) (enumerate_employees cfg)))
   = length (filter (\<lambda>emp. name emp = nm) (employees cfg))"
proof -
  have "length (map fst (filter (\<lambda>(eid, emp). name emp = nm) (enumerate_employees cfg)))
      = length (map snd (filter (\<lambda>(eid, emp). name emp = nm) (enumerate_employees cfg)))"
    by simp
  also have "\<dots> = length (filter (\<lambda>emp. name emp = nm) (employees cfg))"
    unfolding enumerate_employees_def by (subst filter_enumerate) simp_all
  finally show ?thesis .
qed

lemma name_matches_member:
  assumes "eid \<in> set (map fst (filter (\<lambda>(eid, emp). name emp = nm) (enumerate_employees cfg)))"
  shows "eid < length (employees cfg) \<and> name (employees cfg ! eid) = nm"
proof -
  from assms obtain emp
    where m: "(eid, emp) \<in> set (enumerate_employees cfg)" and n: "name emp = nm"
    by auto
  from m have "eid < length (employees cfg) \<and> emp = employees cfg ! eid"
    unfolding enumerate_employees_def by (auto simp: set_zip)
  with n show ?thesis by simp
qed

text \<open>
  C4, as the code has it. With \<open>k\<close> the number of employees of the roster that bear the
  name: when \<open>k = 0\<close> the lookup fails its assertion (the source's comment: software
  bug), no configuration error; when \<open>k = 1\<close> it returns the id of the employee of that
  name; when \<open>k > 1\<close> it raises SystemExit with the message that the name is not unique.
\<close>

theorem employee_name_to_id_cases:
  "(length (filter (\<lambda>emp. name emp = nm) (employees cfg)) = 0 \<longrightarrow>
        employee_name_to_id cfg nm = Inl AssertionError)
   \<and> (length (filter (\<lambda>emp. name emp = nm) (employees cfg)) = 1 \<longrightarrow>
        (\<exists>eid. employee_name_to_id cfg nm = Inr eid \<and> eid < length (employees cfg)
           \<and> name (employees cfg ! eid) = nm))
   \<and> (1 < length (filter (\<lambda>emp. name emp = nm) (employees cfg)) \<longrightarrow>
        employee_name_to_id cfg nm = Inl (SystemExit (''Name \"'' @ nm @ ''\" is not unique'')))"
proof -
  define ret where
    "ret = map fst (filter (\<lambda>(eid, emp). name emp = nm) (enumerate_employees cfg))"
  have len: "length ret = length (filter (\<lambda>emp. name emp = nm) (employees cfg))"
    unfolding ret_def by (rule name_matches_length)
  have r: "employee_name_to_id cfg nm =
      (if length ret = 0 then Inl AssertionError
       else if length ret = 1 then Inr (ret ! 0)
       else Inl (SystemExit (''Name \"'' @ nm @ ''\" is not unique'')))"
    unfolding employee_name_to_id_def ret_def Let_def ..
  have one: "ret ! 0 < length (employees cfg) \<and> name (employees cfg ! (ret ! 0)) = nm"
    if "length ret = 1"
  proof -
    from that have "ret ! 0 \<in> set ret" by simp
    then show ?thesis unfolding ret_def by (rule name_matches_member)
  qed
  show ?thesis using one by (auto simp: r len [symmetric])
qed

text \<open>On the roster that lists \<open>A1\<close> twice, the three cases at \<open>A1\<close> (two bearers).\<close>

theorem employee_name_to_id_cases_witness:
  "length (filter (\<lambda>emp. name emp = ''A1'') (employees twice_listed)) = 2
   \<and> employee_name_to_id twice_listed ''A1'' = Inl (SystemExit ''Name \"A1\" is not unique'')"
proof -
  have two: "length (filter (\<lambda>emp. name emp = ''A1'') (employees twice_listed)) = 2"
    by (simp add: twice_listed_def)
  with employee_name_to_id_cases [of "''A1''" twice_listed] show ?thesis by simp
qed

text \<open>
  A name absent from the roster ends in the assertion, not in a configuration error.
\<close>

theorem absent_name_is_assertion:
  "''Z9'' \<notin> set (map name (employees twice_listed))
   \<and> employee_name_to_id twice_listed ''Z9'' = Inl AssertionError
   \<and> \<not> (\<exists>msg. employee_name_to_id twice_listed ''Z9'' = Inl (SystemExit msg))"
proof -
  have "employee_name_to_id twice_listed ''Z9'' = Inl AssertionError"
    by (simp add: employee_name_to_id_def twice_listed_def enumerate_employees_def)
  then show ?thesis by (simp add: twice_listed_def)
qed

section \<open>Shift templates\<close>

lemma make_employee_middle_fulltime:
  assumes "map_of info e_name = Some (True, department)"
  shows "make_employee info (''M'', e_name) = Inl KeyError"
  using assms
  by (simp add: make_employee_def dict_get_def Shift_init_def templates_def template_times_def)

text \<open>
  C10. The three template tables have the same five keys; \<open>Shift_init\<close> gives a shift
  for each of them and KeyError for \<open>(M, True)\<close>, and so do \<open>lunch_priority\<close> and
  \<open>lunch_slots_strict\<close> on a shift of that label. The KeyError is not caught: when the
  employees listed before construct, a full-time employee listed with \<open>M\<close> makes
  \<open>Config_init\<close>, and \<open>main\<close> before any call of the solver, end in KeyError.
\<close>

theorem middle_fulltime_KeyError:
  assumes "err_map (make_employee info) before = Inr emps"
    and "map_of info e_name = Some (True, department)"
  shows "Shift_init ''M'' True = Inl KeyError
     \<and> map fst template_times
         = [(''E'', True), (''E'', False), (''M'', False), (''L'', True), (''L'', False)]
     \<and> map fst lunch_priority_table = map fst template_times
     \<and> map fst lunch_slots_strict_table = map fst template_times
     \<and> map (\<lambda>(c, f). Shift_init c f) (map fst template_times)
         = [Inr \<lparr>config = ''E'', is_fulltime = True, time_range = \<lparr>start = 0, stop = 34\<rparr>\<rparr>,
            Inr \<lparr>config = ''E'', is_fulltime = False, time_range = \<lparr>start = 0, stop = 31\<rparr>\<rparr>,
            Inr \<lparr>config = ''M'', is_fulltime = False, time_range = \<lparr>start = 4, stop = 36\<rparr>\<rparr>,
            Inr \<lparr>config = ''L'', is_fulltime = True, time_range = \<lparr>start = 5, stop = 40\<rparr>\<rparr>,
            Inr \<lparr>config = ''L'', is_fulltime = False, time_range = \<lparr>start = 8, stop = 40\<rparr>\<rparr>]
     \<and> lunch_priority \<lparr>config = ''M'', is_fulltime = True, time_range = r\<rparr> = Inl KeyError
     \<and> lunch_slots_strict \<lparr>config = ''M'', is_fulltime = True, time_range = r\<rparr> = Inl KeyError
     \<and> Config_init info (before @ (''M'', e_name) # after) meetings_today register_today
         = Inl KeyError
     \<and> main solver others ideal info (before @ (''M'', e_name) # after) meetings_today
         register_today = (Inl KeyError, [])"
proof -
  have shift: "Shift_init ''M'' True = Inl KeyError"
    by (simp add: Shift_init_def templates_def template_times_def dict_get_def)
  have keys: "map fst template_times
      = [(''E'', True), (''E'', False), (''M'', False), (''L'', True), (''L'', False)]"
    by (simp add: template_times_def)
  have prio: "map fst lunch_priority_table = map fst template_times"
    by (simp add: lunch_priority_table_def template_times_def)
  have strict: "map fst lunch_slots_strict_table = map fst template_times"
    by (simp add: lunch_slots_strict_table_def template_times_def)
  have five: "map (\<lambda>(c, f). Shift_init c f) (map fst template_times)
         = [Inr \<lparr>config = ''E'', is_fulltime = True, time_range = \<lparr>start = 0, stop = 34\<rparr>\<rparr>,
            Inr \<lparr>config = ''E'', is_fulltime = False, time_range = \<lparr>start = 0, stop = 31\<rparr>\<rparr>,
            Inr \<lparr>config = ''M'', is_fulltime = False, time_range = \<lparr>start = 4, stop = 36\<rparr>\<rparr>,
            Inr \<lparr>config = ''L'', is_fulltime = True, time_range = \<lparr>start = 5, stop = 40\<rparr>\<rparr>,
            Inr \<lparr>config = ''L'', is_fulltime = False, time_range = \<lparr>start = 8, stop = 40\<rparr>\<rparr>]"
    by code_simp
  have lp: "lunch_priority \<lparr>config = ''M'', is_fulltime = True, time_range = r\<rparr> = Inl KeyError"
    by (simp add: lunch_priority_def templates_def lunch_priority_table_def dict_get_def)
  have ls: "lunch_slots_strict \<lparr>config = ''M'', is_fulltime = True, time_range = r\<rparr>
      = Inl KeyError"
    by (simp add: lunch_slots_strict_def lunch_slots_strict_template_def templates_def
        lunch_slots_strict_table_def dict_get_def)
  have "err_map (make_employee info) (before @ (''M'', e_name) # after) = Inl KeyError"
    using assms(1) make_employee_middle_fulltime [OF assms(2)] by (rule err_map_stops)
  then have cfg: "Config_init info (before @ (''M'', e_name) # after) meetings_today
      register_today = Inl KeyError"
    by (simp add: Config_init_def)
  then have "main solver others ideal info (before @ (''M'', e_name) # after) meetings_today
      register_today = (Inl KeyError, [])"
    by (simp add: main_def)
  with shift keys prio strict five lp ls cfg show ?thesis by blast
qed

text \<open>
  The full-time employee \<open>K3\<close> of \<^verbatim>\<open>config.py\<close>, listed with \<open>M\<close> after the part-time \<open>A1\<close>.
\<close>

theorem middle_fulltime_KeyError_witness:
  "err_map (make_employee example_info) [(''E'', ''A1'')]
     = Inr [\<lparr>shift = \<lparr>config = ''E'', is_fulltime = False,
                      time_range = \<lparr>start = 0, stop = 31\<rparr>\<rparr>,
             name = ''A1'', dept = ''SD''\<rparr>]
   \<and> map_of example_info ''K3'' = Some (True, ''OTHER'')
   \<and> Config_init example_info [(''E'', ''A1''), (''M'', ''K3'')] [] [(1, ''10:00'')]
       = Inl KeyError"
proof -
  have a: "err_map (make_employee example_info) [(''E'', ''A1'')]
     = Inr [\<lparr>shift = \<lparr>config = ''E'', is_fulltime = False,
                      time_range = \<lparr>start = 0, stop = 31\<rparr>\<rparr>,
             name = ''A1'', dept = ''SD''\<rparr>]"
    by code_simp
  have b: "map_of example_info ''K3'' = Some (True, ''OTHER'')"
    by (simp add: example_info_def)
  from middle_fulltime_KeyError [OF a b, of _ "[]" "[]" "[(1, ''10:00'')]"]
  have "Config_init example_info [(''E'', ''A1''), (''M'', ''K3'')] [] [(1, ''10:00'')]
       = Inl KeyError"
    by simp
  with a b show ?thesis by simp
qed

section \<open>Solutions of a model\<close>

lemma satisfies_append: "satisfies a (xs @ ys) \<longleftrightarrow> satisfies a xs \<and> satisfies a ys"
  by (simp add: satisfies_def)

lemma satisfies_member: "satisfies a cs \<Longrightarrow> c \<in> set cs \<Longrightarrow> holds a c"
  by (simp add: satisfies_def list_all_iff)

lemma holds_Add: "holds a (Add c) = ct_holds a c"
  by (simp add: holds_def Add_def)

section \<open>The refinement\<close>

text \<open>
  C7. Let \<open>m'\<close> be the model \<open>make_schedule_idealistic\<close> builds from the model \<open>m\<close> and the
  solution \<open>sol\<close> found for it; \<open>m'\<close> is the model of the second solve. In every solution
  \<open>a\<close> of \<open>m'\<close>, the toggle of every record of the registry has the value it has in
  \<open>sol\<close>; the constraints of \<open>m\<close> are all kept.
\<close>

theorem refinement_keeps_toggles:
  assumes "refinement_model run m sol = Inr m'"
    and "satisfies a (constraints m')"
    and "c \<in> set soft_constraints"
  shows "a (enable c) = sol (enable c)
     \<and> set (constraints m) \<subseteq> set (constraints m')
     \<and> snd (make_schedule_idealistic solver run m sol tr) = tr @ [(60, m')]"
proof -
  from assms(1) have cs: "constraints m' = constraints m
      @ [Add (Linear (V (enable c)) EQ (K (if sol (enable c) then 1 else 0))).
         c \<leftarrow> soft_constraints]"
    by (auto simp: refinement_model_def split: if_splits)
  have "Add (Linear (V (enable c)) EQ (K (if sol (enable c) then 1 else 0)))
      \<in> set (constraints m')"
    unfolding cs using assms(3) by simp
  with assms(2)
  have "holds a (Add (Linear (V (enable c)) EQ (K (if sol (enable c) then 1 else 0))))"
    by (rule satisfies_member)
  then have toggle: "a (enable c) = sol (enable c)"
    by (simp add: holds_Add split: if_splits)
  have frame: "set (constraints m) \<subseteq> set (constraints m')"
    unfolding cs by simp
  have "snd (make_schedule_idealistic solver run m sol tr) = tr @ [(60, m')]"
    by (simp add: make_schedule_idealistic_def assms(1) Let_def)
  with toggle frame show ?thesis by simp
qed

lemma refined_solves_refinement:
  "case refinement_model pinned_run (run_model pinned_run) found of
     Inr m' \<Rightarrow> satisfies refined (constraints m') | Inl e \<Rightarrow> False"
  by code_simp

text \<open>
  On \<open>pinned_run\<close>: \<open>refined\<close> solves the refinement model built from \<open>found\<close>, differs
  from \<open>found\<close> on a slot, and has the toggle of \<open>cashier-diff-0\<close> off as \<open>found\<close> has.
\<close>

theorem refinement_keeps_toggles_witness:
  "\<exists>m'. refinement_model pinned_run (run_model pinned_run) found = Inr m'
      \<and> satisfies refined (constraints m')
      \<and> SoftConstraint_init ''cashier-diff-0'' 10 (Cap_non_cashier_appointment_delta [CASHIER] 0)
          \<in> set soft_constraints
      \<and> refined (Sched 0 0 LUNCH) \<noteq> found (Sched 0 0 LUNCH)
      \<and> refined (Enable ''cashier-diff-0'') = found (Enable ''cashier-diff-0'')"
proof -
  from refined_solves_refinement obtain m'
    where m: "refinement_model pinned_run (run_model pinned_run) found = Inr m'"
      and s: "satisfies refined (constraints m')"
    by (auto split: sum.splits)
  have c: "SoftConstraint_init ''cashier-diff-0'' 10 (Cap_non_cashier_appointment_delta [CASHIER] 0)
      \<in> set soft_constraints"
    by (simp add: soft_constraints_def)
  have d: "refined (Sched 0 0 LUNCH) \<noteq> found (Sched 0 0 LUNCH)"
    by (simp add: refined_def found_def)
  from refinement_keeps_toggles [OF m s c]
  have "refined (Enable ''cashier-diff-0'') = found (Enable ''cashier-diff-0'')"
    by (simp add: enable_def SoftConstraint_init_def)
  with m s c d show ?thesis by blast
qed

section \<open>The registry\<close>



section \<open>Feasible schedules\<close>

lemma curr_count_sorted:
  "sorted (map epoch_start es) \<Longrightarrow>
   curr_count es slot acc = (case value_in_force es slot of None \<Rightarrow> acc | Some c \<Rightarrow> Some c)"
proof (induction es arbitrary: acc)
  case Nil
  then show ?case by (simp add: value_in_force_def)
next
  case (Cons e es)
  then have srt: "sorted (map epoch_start es)" and le: "\<forall>x\<in>set es. epoch_start e \<le> epoch_start x"
    by simp_all
  show ?case
  proof (cases "slot < epoch_start e")
    case True
    with le have "filter (\<lambda>e. epoch_start e \<le> slot) (e # es) = []"
      by (auto simp: filter_empty_conv)
    with True show ?thesis by (simp add: value_in_force_def)
  next
    case False
    then show ?thesis
      using Cons.IH [OF srt, of "Some (epoch_count e)"]
      by (simp add: value_in_force_def Let_def)
  qed
qed

lemma eval_Sum_append: "eval_expr a (Sum (xs @ ys)) = eval_expr a (Sum xs) + eval_expr a (Sum ys)"
  by simp

lemma eval_Sum_V: "eval_expr a (Sum [V (f x). x \<leftarrow> xs]) = int (length (filter (\<lambda>x. a (f x)) xs))"
  by (induction xs) simp_all

lemma length_filter_ids:
  "length (filter P [0..<n]) = card {i. i < n \<and> P i}"
proof -
  have "card (set (filter P [0..<n])) = length (filter P [0..<n])"
    by (rule distinct_card) simp
  moreover have "set (filter P [0..<n]) = {i. i < n \<and> P i}" by auto
  ultimately show ?thesis by simp
qed

lemma employee_ids_ALL: "employee_ids cfg ''ALL'' False = [0..<length (employees cfg)]"
  by (simp add: employee_ids_def)

lemma add_hard_constraints_parts:
  assumes "add_hard_constraints cfg = Inr hard"
  shows "\<exists>register lunch no_lunch_first meeting.
      hard_register_count cfg = Inr register
    \<and> hard_lunch_on_the_hour cfg = Inr lunch
    \<and> hard_never_starts_with_lunch cfg = Inr no_lunch_first
    \<and> hard_meetings cfg = Inr meeting
    \<and> hard = hard_shift_times cfg @ hard_exactly_one cfg @ hard_designated_cashier cfg
            @ hard_at_least_one_cashier cfg @ register @ hard_non_cashier_cashiers cfg
            @ hard_two_breaks cfg @ hard_one_lunch_hour cfg @ lunch @ no_lunch_first
            @ meeting"
  using assms unfolding add_hard_constraints_def by (auto simp: err_bind_eq_Inr)

text \<open>
  C6. In every assignment that satisfies the hard constraints of a roster (so in every
  feasible schedule), for every slot of the day, the number of employees with the
  cashier activity plus the number with the support activity is the count \<open>c\<close> the
  register-count loop of the source computes for the slot; when the epochs are listed
  in the order of their effective-from slots, \<open>c\<close> is the count of the last epoch whose
  effective-from slot is at or before the slot.
\<close>

theorem register_count_obeyed:
  assumes "add_hard_constraints cfg = Inr hard"
    and "satisfies a hard"
    and "slot \<in> set slots"
  shows "\<exists>c. curr_count (register_count cfg) slot None = Some c
     \<and> int (card {eid. eid < length (employees cfg) \<and> a (Sched eid slot CASHIER)})
       + int (card {eid. eid < length (employees cfg) \<and> a (Sched eid slot SUPPORT)}) = c
     \<and> (sorted (map epoch_start (register_count cfg)) \<longrightarrow>
          value_in_force (register_count cfg) slot = Some c)"
proof -
  from add_hard_constraints_parts [OF assms(1)] obtain register rest1 rest2
    where reg: "hard_register_count cfg = Inr register"
      and hard: "hard = rest1 @ register @ rest2"
    by (metis append.assoc)
  from reg assms(3) obtain y where y: "obey_register_count cfg slot = Inr y" and mem: "y \<in> set register"
    unfolding hard_register_count_def by (blast dest: err_map_Inr_member)
  from y obtain c where c: "curr_count (register_count cfg) slot None = Some c"
    and ydef: "y = Add (Linear
                 (Sum ([V (Sched eid slot CASHIER). eid \<leftarrow> employee_ids cfg ''ALL'' False]
                     @ [V (Sched eid slot SUPPORT). eid \<leftarrow> employee_ids cfg ''ALL'' False]))
                 EQ (K c))"
    by (auto simp: obey_register_count_def Let_def split: option.splits if_splits)
  from assms(2) mem have "holds a y"
    by (auto simp: hard satisfies_append dest: satisfies_member)
  then have "eval_expr a (Sum ([V (Sched eid slot CASHIER). eid \<leftarrow> employee_ids cfg ''ALL'' False]
        @ [V (Sched eid slot SUPPORT). eid \<leftarrow> employee_ids cfg ''ALL'' False])) = c"
    by (simp add: ydef holds_Add)
  then have "int (length (filter (\<lambda>eid. a (Sched eid slot CASHIER)) [0..<length (employees cfg)]))
      + int (length (filter (\<lambda>eid. a (Sched eid slot SUPPORT)) [0..<length (employees cfg)])) = c"
    unfolding eval_Sum_append eval_Sum_V by (simp add: employee_ids_ALL)
  then have count: "int (card {eid. eid < length (employees cfg) \<and> a (Sched eid slot CASHIER)})
       + int (card {eid. eid < length (employees cfg) \<and> a (Sched eid slot SUPPORT)}) = c"
    by (simp add: length_filter_ids)
  have "value_in_force (register_count cfg) slot = Some c"
    if "sorted (map epoch_start (register_count cfg))"
    using curr_count_sorted [OF that, of slot None] c by (simp split: option.splits)
  with c count show ?thesis by blast
qed

end
